theory Spec2Isabelle
  imports Main "HOL-Library.AList"
begin

section \<open>Strings and the two patterns of the release uploader\<close>

text \<open>
  A JavaScript string is modelled as a \<^typ>\<open>string\<close>: the list of its code units,
  for the code units below 256. The character classes of the patterns used by the
  programs are \<open>\d\<close> (the ten ASCII digits), \<open>\w\<close> (ASCII letters, digits and the
  underscore) and \<open>\s\<close> (of which the code units below 256 are tab, line feed, vertical
  tab, form feed, carriage return, space and the no-break space).
\<close>

definition is_digit :: "char \<Rightarrow> bool" where
  "is_digit c = (c \<in> set ''0123456789'')"

definition is_word :: "char \<Rightarrow> bool" where
  "is_word c =
     (c \<in> set ''abcdefghijklmnopqrstuvwxyzABCDEFGHIJKLMNOPQRSTUVWXYZ0123456789_'')"

definition is_space :: "char \<Rightarrow> bool" where
  "is_space c = (c \<in> set [CHR 0x09, CHR 0x0A, CHR 0x0B, CHR 0x0C, CHR 0x0D, CHR 0x20, CHR 0xA0])"

text \<open>
  The two patterns of \<open>upload-release\<close> are sequences of single characters and of
  \<open>+\<close>-repetitions of a character class, with one capture group, anchored at the end
  of the input by \<open>$\<close>. \<open>Rep1 k\<close> is the greedy \<open>k+\<close>; \<open>GroupOpen\<close> and \<open>GroupClose\<close>
  are the parentheses of group 1; \<open>EndAnchor\<close> is \<open>$\<close> (no \<open>m\<close> flag: the end of the
  input only).
\<close>

datatype char_class = Digit | WordOrHyphen | DigitOrDot | Lit char

fun in_class :: "char_class \<Rightarrow> char \<Rightarrow> bool" where
  "in_class Digit c = is_digit c"
| "in_class WordOrHyphen c = (is_word c \<or> c = CHR ''-'')"
| "in_class DigitOrDot c = (is_digit c \<or> c = CHR ''.'')"
| "in_class (Lit l) c = (c = l)"

datatype re_item = Single char_class | Rep1 char_class | GroupOpen | GroupClose | EndAnchor

text \<open>
  \<open>match_here items s capturing grp\<close> matches \<open>items\<close> at the start of \<open>s\<close> the way a
  backtracking matcher does: a \<open>+\<close> first tries to take one more character and falls
  back to the rest of the pattern when that fails. The result is the text of group 1.
\<close>

fun match_here :: "re_item list \<Rightarrow> string \<Rightarrow> bool \<Rightarrow> string \<Rightarrow> string option" where
  "match_here [] s capturing grp = Some grp"
| "match_here (EndAnchor # items) s capturing grp =
     (if s = [] then match_here items s capturing grp else None)"
| "match_here (GroupOpen # items) s capturing grp = match_here items s True []"
| "match_here (GroupClose # items) s capturing grp = match_here items s False grp"
| "match_here (Single k # items) [] capturing grp = None"
| "match_here (Single k # items) (c # cs) capturing grp =
     (if in_class k c
      then match_here items cs capturing (if capturing then grp @ [c] else grp)
      else None)"
| "match_here (Rep1 k # items) [] capturing grp = None"
| "match_here (Rep1 k # items) (c # cs) capturing grp =
     (if in_class k c
      then (let grp' = (if capturing then grp @ [c] else grp) in
            case match_here (Rep1 k # items) cs capturing grp' of
              Some g \<Rightarrow> Some g
            | None \<Rightarrow> match_here items cs capturing grp')
      else None)"

text \<open>
  \<open>String.prototype.match\<close> with a pattern without the \<open>g\<close> flag: the leftmost start
  position at which the pattern matches; \<open>None\<close> is JavaScript's \<open>null\<close>. The result
  is element \<open>[1]\<close> of the match array.
\<close>

fun js_match :: "re_item list \<Rightarrow> string \<Rightarrow> string option" where
  "js_match items [] = match_here items [] False []"
| "js_match items (c # cs) =
     (case match_here items (c # cs) False [] of
        Some g \<Rightarrow> Some g
      | None \<Rightarrow> js_match items cs)"

text \<open>\<open>/(\d+\.\d+\.\d+)\.tgz$/\<close>\<close>

definition tag_pattern :: "re_item list" where
  "tag_pattern =
     [GroupOpen, Rep1 Digit, Single (Lit CHR ''.''), Rep1 Digit, Single (Lit CHR ''.''),
      Rep1 Digit, GroupClose,
      Single (Lit CHR ''.''), Single (Lit CHR ''t''), Single (Lit CHR ''g''),
      Single (Lit CHR ''z''), EndAnchor]"

text \<open>\<open>/\/([\w-]+)-v[\d\.]+\.tgz$/\<close>\<close>

definition repo_pattern :: "re_item list" where
  "repo_pattern =
     [Single (Lit CHR ''/''), GroupOpen, Rep1 WordOrHyphen, GroupClose,
      Single (Lit CHR ''-''), Single (Lit CHR ''v''), Rep1 DigitOrDot,
      Single (Lit CHR ''.''), Single (Lit CHR ''t''), Single (Lit CHR ''g''),
      Single (Lit CHR ''z''), EndAnchor]"


section \<open>The release uploader (\<open>upload-release\<close>)\<close>

subsection \<open>Data\<close>

text \<open>
  The value minimist gives \<open>argv.i\<close>: nothing when \<open>-i\<close> is not given, \<open>true\<close> when it
  is given without a value, a number when the value reads as one, a string otherwise.
\<close>

datatype arg = ArgMissing | ArgTrue | ArgNumber int | ArgString string

text \<open>
  The values that are thrown or that reject a promise. \<open>TypeError\<close> is what indexing
  \<open>null\<close> or calling a method that a value does not have throws. \<open>ApiError\<close> is a
  rejection of the hosting API's client, with its \<open>code\<close> (when it is a number), its
  \<open>status\<close> (when it is a string) and its message; \<open>FsError\<close> is what \<open>fs.statSync\<close>,
  \<open>fs.readFileSync\<close> and \<open>fs.writeFileSync\<close> throw, with its message; \<open>ReferenceError\<close>
  is what reading an identifier that is not declared throws, with the identifier.
\<close>

datatype js_error =
    TypeError
  | Error string
  | AlreadyExists string
  | ApiError "nat option" "string option" string
  | FsError string
  | ReferenceError string

fun code_of :: "js_error \<Rightarrow> nat option" where
  "code_of (ApiError code status msg) = code"
| "code_of e = None"

fun status_of :: "js_error \<Rightarrow> string option" where
  "status_of (ApiError code status msg) = status"
| "status_of e = None"

text \<open>\<open>e instanceof AlreadyExists\<close>\<close>

fun instanceof_AlreadyExists :: "js_error \<Rightarrow> bool" where
  "instanceof_AlreadyExists (AlreadyExists msg) = True"
| "instanceof_AlreadyExists e = False"

record asset =
  asset_name :: string
  asset_size :: nat
  asset_id :: nat

record release =
  release_id :: nat
  assets :: "asset list"

text \<open>The requests sent to the hosting API, with their parameters.\<close>

datatype api_call =
    GetReleaseByTag string string string
  | DeleteReleaseAsset string string nat
  | UploadReleaseAsset string string string nat string

fun is_delete :: "api_call \<Rightarrow> bool" where
  "is_delete (DeleteReleaseAsset owner repo aid) = True"
| "is_delete c = False"

fun is_upload :: "api_call \<Rightarrow> bool" where
  "is_upload (UploadReleaseAsset owner repo nm rid content) = True"
| "is_upload c = False"

text \<open>
  What is written to the console: a string, the message of an error or the error
  itself, by \<open>console.log\<close> (\<open>Out\<close>) or \<open>console.error\<close> (\<open>Err\<close>).
\<close>

datatype console_line =
    Out string
  | OutMessage js_error
  | OutValue js_error
  | ErrMessage js_error
  | ErrValue js_error

text \<open>
  What the outside answers during one run: the hosting API to the lookup, the deletion
  and the upload (each is requested at most once), and the file system to
  \<open>fs.statSync(file).size\<close> and \<open>fs.readFileSync(file)\<close>.
\<close>

record world =
  lookup_answer :: "js_error + release"
  stat_answer :: "js_error + nat"
  read_answer :: "js_error + string"
  delete_answer :: "js_error option"
  upload_answer :: "js_error + string"

text \<open>A settled promise chain: the rejection if any, the requests sent, the console.\<close>

record trace =
  rejection :: "js_error option"
  calls :: "api_call list"
  console :: "console_line list"

record outcome =
  exit_code :: nat
  requests :: "api_call list"
  printed :: "console_line list"

subsection \<open>Deriving the tag and the repository name\<close>

definition owner :: string where
  "owner = ''OpenFn''"

text \<open>
  Lines 311 to 323: the token, the \<open>-i\<close> value, the tag and the repository name. A value
  without a \<open>match\<close> method and a pattern that does not match (\<open>null[1]\<close>) throw a
  \<open>TypeError\<close>. The result is the file, the tag and the repository name.
\<close>

definition falsy_arg :: "arg \<Rightarrow> bool" where
  "falsy_arg a = (a = ArgMissing \<or> a = ArgNumber 0 \<or> a = ArgString [])"

definition derive_target :: "string option \<Rightarrow> arg \<Rightarrow> js_error + (string \<times> string \<times> string)" where
  "derive_target token file_arg =
     (if token = None \<or> token = Some []
      then Inl (Error ''Github OAuth token not found, please set via GH_TOKEN=...'')
      else if falsy_arg file_arg
      then Inl (Error ''Please specify file with -i <filename>.'')
      else case file_arg of
        ArgString file \<Rightarrow>
          (case js_match tag_pattern file of
             None \<Rightarrow> Inl TypeError
           | Some version \<Rightarrow>
               (case js_match repo_pattern file of
                  None \<Rightarrow> Inl TypeError
                | Some repo \<Rightarrow> Inr (file, CHR ''v'' # version, repo)))
      | _ \<Rightarrow> Inl TypeError)"

subsection \<open>Lookup, conflict resolution and upload\<close>

text \<open>\<open>findBuildFor\<close>: the lookup request and the rewriting of a 404 rejection.\<close>

definition findBuildFor :: "string \<Rightarrow> string \<Rightarrow> world \<Rightarrow> js_error + release" where
  "findBuildFor tag repo w =
     (case lookup_answer w of
        Inl e \<Rightarrow>
          (if code_of e = Some 404
           then Inl (Error (tag @ '' does not exist for repo: '' @ repo))
           else Inl e)
      | Inr rel \<Rightarrow> Inr rel)"

text \<open>
  \<open>uploadUnlessExists\<close>, lines 372 to 387: the first asset named \<open>build.tgz\<close> and the
  comparison of sizes. The result is the error thrown (if any) and \<open>existing\<close>.
\<close>

definition existing_asset :: "release \<Rightarrow> asset option" where
  "existing_asset rel = find (\<lambda>a. asset_name a = ''build.tgz'') (assets rel)"

definition check_existing :: "bool \<Rightarrow> world \<Rightarrow> release \<Rightarrow> js_error option" where
  "check_existing updateExisting w rel =
     (case existing_asset rel of
        None \<Rightarrow> None
      | Some existing \<Rightarrow>
          (case stat_answer w of
             Inl e \<Rightarrow> Some e
           | Inr localSize \<Rightarrow>
               (if localSize = asset_size existing
                then Some (AlreadyExists ''Build already exists.'')
                else if \<not> updateExisting
                then Some (AlreadyExists
                  ''Build exists but is a different size. Use -u option to update existing files.'')
                else None)))"

text \<open>
  Lines 398 to 419: the upload step. \<open>fs.readFileSync(file)\<close> is evaluated before the
  request is made, outside the inner \<open>catch\<close>. The console line of a successful upload
  is written without its leading check mark, which is not among the modelled code units.
\<close>

definition upload_step :: "string \<Rightarrow> world \<Rightarrow> release \<Rightarrow> trace" where
  "upload_step repo w rel =
     (case read_answer w of
        Inl e \<Rightarrow>
          \<lparr>rejection = Some e, calls = [], console = [Out ''Uploading release asset.'']\<rparr>
      | Inr content \<Rightarrow>
          (let request = UploadReleaseAsset owner repo ''build.tgz'' (release_id rel) content in
           case upload_answer w of
             Inr url \<Rightarrow>
               \<lparr>rejection = None, calls = [request],
                console = [Out ''Uploading release asset.'',
                           Out ('' Build uploaded as release asset: '' @ url)]\<rparr>
           | Inl err \<Rightarrow>
               (if status_of err = Some ''ENOENT''
                then \<lparr>rejection = Some err, calls = [request],
                      console = [Out ''Uploading release asset.'']\<rparr>
                else \<lparr>rejection = Some (Error ''Upload Failed.''), calls = [request],
                      console = [Out ''Uploading release asset.'', OutValue err]\<rparr>)))"

text \<open>
  Lines 389 to 397 and their continuation: \<open>mustDelete\<close> is \<open>existing && updateExisting\<close>;
  a rejected deletion skips the upload step.
\<close>

definition delete_then_upload :: "string \<Rightarrow> bool \<Rightarrow> world \<Rightarrow> release \<Rightarrow> trace" where
  "delete_then_upload repo updateExisting w rel =
     (case (if updateExisting then existing_asset rel else None) of
        None \<Rightarrow> upload_step repo w rel
      | Some existing \<Rightarrow>
          (let request = DeleteReleaseAsset owner repo (asset_id existing) in
           case delete_answer w of
             Some e \<Rightarrow> \<lparr>rejection = Some e, calls = [request], console = []\<rparr>
           | None \<Rightarrow>
               (let t = upload_step repo w rel in t\<lparr>calls := request # calls t\<rparr>)))"

definition uploadUnlessExists :: "string \<Rightarrow> bool \<Rightarrow> world \<Rightarrow> release \<Rightarrow> trace" where
  "uploadUnlessExists repo updateExisting w rel =
     (case check_existing updateExisting w rel of
        Some e \<Rightarrow> \<lparr>rejection = Some e, calls = [], console = []\<rparr>
      | None \<Rightarrow> delete_then_upload repo updateExisting w rel)"

text \<open>\<open>logError\<close>\<close>

definition logError :: "bool \<Rightarrow> js_error \<Rightarrow> console_line" where
  "logError debug e = (if debug then ErrValue e else ErrMessage e)"

text \<open>
  Lines 327 to 337: the chain \<open>findBuildFor(tag).then(uploadUnlessExists(file)).catch(...)\<close>.
\<close>

definition lookup_and_upload :: "string \<Rightarrow> string \<Rightarrow> bool \<Rightarrow> world \<Rightarrow> trace" where
  "lookup_and_upload tag repo updateExisting w =
     (let request = GetReleaseByTag owner repo tag in
      case findBuildFor tag repo w of
        Inl e \<Rightarrow> \<lparr>rejection = Some e, calls = [request], console = []\<rparr>
      | Inr rel \<Rightarrow>
          (let t = uploadUnlessExists repo updateExisting w rel in
           t\<lparr>calls := request # calls t\<rparr>))"

text \<open>
  The whole program: the environment's \<open>GH_TOKEN\<close>, the values of \<open>-i\<close>, \<open>-u\<close> and \<open>-d\<close>
  and the answers of the outside give the exit code, the requests sent and the
  console. The outer \<open>catch\<close> (lines 338 to 341) prints the message and exits with 1;
  the chain's \<open>catch\<close> sets the exit code 2 for an \<open>AlreadyExists\<close> and 1 otherwise; a
  chain that is fulfilled leaves the exit code 0.
\<close>

definition upload_release :: "string option \<Rightarrow> arg \<Rightarrow> bool \<Rightarrow> bool \<Rightarrow> world \<Rightarrow> outcome" where
  "upload_release token file_arg updateExisting debug w =
     (case derive_target token file_arg of
        Inl e \<Rightarrow> \<lparr>exit_code = 1, requests = [], printed = [OutMessage e]\<rparr>
      | Inr (file, tag, repo) \<Rightarrow>
          (let t = lookup_and_upload tag repo updateExisting w in
           case rejection t of
             None \<Rightarrow> \<lparr>exit_code = 0, requests = calls t, printed = console t\<rparr>
           | Some e \<Rightarrow>
               \<lparr>exit_code = (if instanceof_AlreadyExists e then 2 else 1),
                requests = calls t,
                printed = console t @ [logError debug e]\<rparr>))"


subsection \<open>Example inputs\<close>

text \<open>
  A world in which the release has the given assets, the local artifact has the given
  size and can be read, and the deletion and the upload succeed; and an asset named
  \<open>build.tgz\<close> of a given size.
\<close>

definition example_world :: "asset list \<Rightarrow> nat \<Rightarrow> world" where
  "example_world as localSize =
     \<lparr>lookup_answer = Inr \<lparr>release_id = 1, assets = as\<rparr>,
      stat_answer = Inr localSize,
      read_answer = Inr ''tarball'',
      delete_answer = None,
      upload_answer = Inr ''https://example.org/build.tgz''\<rparr>"

definition build_asset :: "nat \<Rightarrow> asset" where
  "build_asset n = \<lparr>asset_name = ''build.tgz'', asset_size = n, asset_id = 5\<rparr>"



section \<open>The project spec generator (\<open>generate-project.js\<close>)\<close>

subsection \<open>Objects\<close>

text \<open>
  A JavaScript object with string keys is the list of its own properties in the order
  of their creation. \<open>Object.keys\<close> lists the keys that are array indices first, in
  ascending numeric order, then the other keys in the order of their creation.
\<close>

type_synonym 'v obj = "(string \<times> 'v) list"

definition digits_value :: "string \<Rightarrow> int" where
  "digits_value s = foldl (\<lambda>n c. 10 * n + (of_char c - 48)) 0 s"

definition is_array_index :: "string \<Rightarrow> bool" where
  "is_array_index s =
     (s \<noteq> [] \<and> list_all is_digit s \<and> (length s = 1 \<or> hd s \<noteq> CHR ''0'')
      \<and> digits_value s < 4294967295)"

definition Object_keys :: "'v obj \<Rightarrow> string list" where
  "Object_keys obj =
     sort_key digits_value (filter is_array_index (map fst obj))
     @ filter (\<lambda>k. \<not> is_array_index k) (map fst obj)"

text \<open>
  \<open>obj[k] = v\<close> on an object made by \<open>{}\<close>: the key \<open>__proto__\<close> names the accessor of
  \<open>Object.prototype\<close>, which sets the prototype (or does nothing, for a value that is
  not an object) and creates no own property; every other key is updated in place or
  added at the end.
\<close>

definition obj_set :: "'v obj \<Rightarrow> string \<Rightarrow> 'v \<Rightarrow> 'v obj" where
  "obj_set obj k v = (if k = ''__proto__'' then obj else AList.update k v obj)"

text \<open>\<open>const duplicateCheck = (val, obj) => !Object.keys(obj).includes(val)\<close>\<close>

definition duplicateCheck :: "string \<Rightarrow> 'v obj \<Rightarrow> bool" where
  "duplicateCheck val obj = (val \<notin> set (Object_keys obj))"

text \<open>
  \<open>removeFalsy\<close>, on an object whose values are strings: the empty string is the
  falsy one.
\<close>

definition removeFalsy :: "string obj \<Rightarrow> string obj" where
  "removeFalsy obj =
     foldl (\<lambda>newObj prop.
              case map_of obj prop of
                Some v \<Rightarrow> if v \<noteq> [] then obj_set newObj prop v else newObj
              | None \<Rightarrow> newObj)
       [] (Object_keys obj)"

subsection \<open>The name field\<close>

text \<open>\<open>value.replace(/\s+/g, '-')\<close>: every maximal run of whitespace becomes one hyphen.\<close>

function replace_whitespace :: "string \<Rightarrow> string" where
  "replace_whitespace [] = []"
| "replace_whitespace (c # cs) =
     (if is_space c then CHR 0x2D # replace_whitespace (dropWhile is_space cs)
      else c # replace_whitespace cs)"
  by pat_completeness auto
termination
  by (relation "measure length") (auto simp: length_dropWhile_le less_Suc_eq_le)

text \<open>A string between double quotes.\<close>

definition quoted :: "string \<Rightarrow> string" where
  "quoted s = CHR 0x22 # s @ [CHR 0x22]"

text \<open>
  The \<open>before\<close> hook of the name field (lines 51 to 60): the value it returns and what
  it writes to the console.
\<close>

definition replacing_notice :: "string \<Rightarrow> console_line" where
  "replacing_notice safeName =
     Out (''We are replacing spaces with hyphens. The new name will be ''
          @ quoted safeName @ ''.'')"

definition before_name :: "string \<Rightarrow> string \<times> console_line list" where
  "before_name v =
     (if CHR '' '' \<in> set v
      then (let safeName = replace_whitespace v in (safeName, [replacing_notice safeName]))
      else (v, []))"

subsection \<open>The prompt package\<close>

text \<open>
  The package \<open>prompt\<close> is not part of the repository. The model keeps the contract the
  program relies on: a property whose \<open>ask\<close> function returns false is not asked; a
  line that is left empty stands for the property's \<open>default\<close>; \<open>before\<close> gives the value
  that is delivered; a value that is missing though \<open>required\<close>, or for which \<open>conform\<close>
  returns false, is refused, the property's \<open>message\<close> is shown (for a property
  without one, \<open>Invalid input for\<close> and its \<open>description\<close>, here without its colour)
  and the property is asked again. Two things the program does not fix are parameters
  of the model:
  \<^item> whether the \<open>before\<close> hook runs before the check, which then sees the line as it
    was read (\<open>HookThenCheckRaw\<close>) or the value the hook returned
    (\<open>HookThenCheckHooked\<close>), or runs on an accepted line only (\<open>CheckThenHook\<close>);
  \<^item> whether a property that is not asked is delivered blank or with its default
    (\<open>unasked_default\<close>).
\<close>

datatype hook_order = HookThenCheckRaw | HookThenCheckHooked | CheckThenHook

record prompt_lib =
  hook_order :: hook_order
  unasked_default :: bool

text \<open>
  The answers remembered so far, the latest first; \<open>prompt.history(name)\<close> is the latest
  answer to the property of that name.
\<close>

type_synonym history = "(string \<times> string) list"

record question =
  description :: string
  required :: bool
  dflt :: "string option"
  before :: "(string \<Rightarrow> string \<times> console_line list) option"
  conform :: "(string \<Rightarrow> bool) option"
  message :: "string option"
  ask :: "(history \<Rightarrow> bool) option"

definition default_line :: "question \<Rightarrow> string" where
  "default_line p = (case dflt p of None \<Rightarrow> [] | Some d \<Rightarrow> d)"

text \<open>The line as it is read: a line left empty stands for the default.\<close>

definition line_read :: "question \<Rightarrow> string \<Rightarrow> string" where
  "line_read p entered = (if entered = [] then default_line p else entered)"

definition run_before :: "question \<Rightarrow> string \<Rightarrow> string \<times> console_line list" where
  "run_before p line = (case before p of None \<Rightarrow> (line, []) | Some hook \<Rightarrow> hook line)"

text \<open>The check of one value: an empty value is missing, any other must conform.\<close>

definition acceptable :: "question \<Rightarrow> string \<Rightarrow> bool" where
  "acceptable p v =
     (if v = [] then \<not> required p
      else case conform p of None \<Rightarrow> True | Some ok \<Rightarrow> ok v)"

definition refusal :: "question \<Rightarrow> console_line list" where
  "refusal p =
     [Out (case message p of None \<Rightarrow> ''Invalid input for '' @ description p | Some m \<Rightarrow> m)]"

text \<open>
  Asking one property until a line is accepted. The lines are what the user enters,
  one per prompt; the result is the value delivered, the lines left and the console
  (without the prompts themselves). \<open>None\<close>: the input ended before a line was
  accepted, and the promise of \<open>prompt.get\<close> is not fulfilled.
\<close>

fun getInput :: "prompt_lib \<Rightarrow> question \<Rightarrow> string list
    \<Rightarrow> (string \<times> string list \<times> console_line list) option" where
  "getInput lib p [] = None"
| "getInput lib p (entered # rest) =
     (let line = line_read p entered;
          hooked = fst (run_before p line);
          notice = snd (run_before p line);
          checked = (if hook_order lib = HookThenCheckHooked then hooked else line)
      in if acceptable p checked
         then Some (hooked, rest, notice)
         else case getInput lib p rest of
                None \<Rightarrow> None
              | Some (v, rest', out) \<Rightarrow>
                  Some (v, rest',
                        (if hook_order lib = CheckThenHook then [] else notice)
                        @ refusal p @ out))"

text \<open>The value delivered for a property that is not asked.\<close>

definition unasked_value :: "prompt_lib \<Rightarrow> question \<Rightarrow> string" where
  "unasked_value lib p = (if unasked_default lib then default_line p else [])"

text \<open>
  \<open>prompt.get(form)\<close>: the properties in their order. The result is the object of the
  answers, the history, the lines left and the console.
\<close>

fun prompt_get :: "prompt_lib \<Rightarrow> (string \<times> question) list \<Rightarrow> history \<Rightarrow> string list
    \<Rightarrow> (string obj \<times> history \<times> string list \<times> console_line list) option" where
  "prompt_get lib [] hist lines = Some ([], hist, lines, [])"
| "prompt_get lib ((nm, p) # props) hist lines =
     (if (case ask p of None \<Rightarrow> True | Some asked \<Rightarrow> asked hist)
      then case getInput lib p lines of
             None \<Rightarrow> None
           | Some (v, rest, out) \<Rightarrow>
               (case prompt_get lib props ((nm, v) # hist) rest of
                  None \<Rightarrow> None
                | Some (answers, hist', rest', out') \<Rightarrow>
                    Some ((nm, v) # answers, hist', rest', out @ out'))
      else case prompt_get lib props hist lines of
             None \<Rightarrow> None
           | Some (answers, hist', rest', out') \<Rightarrow>
               Some ((nm, unasked_value lib p) # answers, hist', rest', out'))"

subsection \<open>The forms\<close>

definition plain :: question where
  "plain = \<lparr>description = [], required = False, dflt = None, before = None, conform = None,
            message = None, ask = None\<rparr>"

text \<open>\<open>another(thing)\<close>\<close>

definition another :: "string \<Rightarrow> (string \<times> question) list" where
  "another thing =
     [(''another'',
       plain\<lparr>description := ''Would you like to add another '' @ thing @ ''? (y/n)'',
             message := Some (''please enter '' @ quoted ''y'' @ '' or '' @ quoted ''n'')\<rparr>)]"

text \<open>
  \<open>name(arr, thing)\<close>. The default is made once, when the form is built, from a random
  adjective and noun; it is a parameter. \<open>arr\<close> is the object as it is when the form is
  prompted (the closure holds the object itself, which is only ever extended).
\<close>

definition name_question :: "'v obj \<Rightarrow> string \<Rightarrow> string \<Rightarrow> question" where
  "name_question arr thing default_name =
     \<lparr>description = thing @ '' name'', required = True, dflt = Some default_name,
      before = Some before_name,
      conform = Some (\<lambda>v. duplicateCheck v arr),
      message = Some (thing @ '' names must be unique; please try something else.''),
      ask = None\<rparr>"

definition name :: "'v obj \<Rightarrow> string \<Rightarrow> string \<Rightarrow> (string \<times> question) list" where
  "name arr thing default_name = [(''name'', name_question arr thing default_name)]"

definition jobForm :: "'v obj \<Rightarrow> string \<Rightarrow> (string \<times> question) list" where
  "jobForm arr default_name =
     name arr ''Job'' default_name
     @ [(''expression'',
         plain\<lparr>description := ''Path to the job (./my-job.js) or the expression itself'',
               required := True\<rparr>),
        (''adaptor'',
         plain\<lparr>description := ''Adaptor'', required := True,
               dflt := Some ''@openfn/language-http''\<rparr>),
        (''trigger'', plain\<lparr>description := ''Trigger'', required := True\<rparr>),
        (''credential'', plain\<lparr>description := ''Credential'', required := True\<rparr>)]
     @ another ''job''"

text \<open>\<open>() => prompt.history('type').value === t\<close>\<close>

definition type_is :: "string \<Rightarrow> history \<Rightarrow> bool" where
  "type_is t hist = (map_of hist ''type'' = Some t)"

text \<open>The questions of the trigger form after the name (lines 99 to 133).\<close>

definition trigger_types :: "string list" where
  "trigger_types = [''cron'', ''message'', ''success'', ''failure'']"

definition type_question :: question where
  "type_question =
     plain\<lparr>description := ''Trigger type (cron | message | success | failure)'',
           required := True, dflt := Some ''cron'',
           conform := Some (\<lambda>v. v \<in> set trigger_types),
           message := Some (''please enter '' @ quoted ''cron'' @ '', '' @ quoted ''message''
             @ '', '' @ quoted ''success'' @ '', or '' @ quoted ''failure'')\<rparr>"

definition cron_question :: question where
  "cron_question =
     plain\<lparr>description := ''Trigger cron'', dflt := Some ''* * * * *'',
           ask := Some (type_is ''cron'')\<rparr>"

definition criteria_question :: question where
  "criteria_question =
     plain\<lparr>description := ''Message criteria'', dflt := Some (''{'' @ quoted ''a'' @ '': 1}''),
           ask := Some (type_is ''message'')\<rparr>"

definition success_question :: question where
  "success_question =
     plain\<lparr>description := ''Triggering job (on success)'', ask := Some (type_is ''success'')\<rparr>"

definition failure_question :: question where
  "failure_question =
     plain\<lparr>description := ''Triggering job (on failure)'', ask := Some (type_is ''failure'')\<rparr>"

definition triggerForm :: "'v obj \<Rightarrow> string \<Rightarrow> (string \<times> question) list" where
  "triggerForm arr default_name =
     name arr ''Trigger'' default_name
     @ [(''type'', type_question),
        (''cron'', cron_question),
        (''criteria'', criteria_question),
        (''success'', success_question),
        (''failure'', failure_question)]
     @ another ''trigger''"

definition credentialForm :: "'v obj \<Rightarrow> string \<Rightarrow> (string \<times> question) list" where
  "credentialForm arr default_name =
     name arr ''Credential'' default_name
     @ [(''body'', plain\<lparr>description := ''Path to credential.json'', required := True\<rparr>)]
     @ another ''credential''"

subsection \<open>The collection loops\<close>

text \<open>
  The three accumulators: a job and a trigger are objects of strings, a credential is
  a string.
\<close>

record gen_state =
  jobs :: "string obj obj"
  triggers :: "string obj obj"
  credentials :: "string obj"

text \<open>
  The destructuring \<open>const { name, another, ...rest } = answers\<close>. Every form has the
  properties \<open>name\<close> and \<open>another\<close> (and the form of the credentials \<open>body\<close>), so the
  answers have them.
\<close>

definition answer :: "string obj \<Rightarrow> string \<Rightarrow> string" where
  "answer answers k = (case map_of answers k of Some v \<Rightarrow> v | None \<Rightarrow> [])"

definition rest_of :: "string obj \<Rightarrow> string obj" where
  "rest_of answers = filter (\<lambda>kv. fst kv \<noteq> ''name'' \<and> fst kv \<noteq> ''another'') answers"

text \<open>What each loop stores for one set of answers.\<close>

definition store_job :: "string obj \<Rightarrow> gen_state \<Rightarrow> gen_state" where
  "store_job answers st =
     st\<lparr>jobs := obj_set (jobs st) (answer answers ''name'') (rest_of answers)\<rparr>"

definition store_trigger :: "string obj \<Rightarrow> gen_state \<Rightarrow> gen_state" where
  "store_trigger answers st =
     st\<lparr>triggers := obj_set (triggers st) (answer answers ''name'')
                       (removeFalsy (rest_of answers))\<rparr>"

definition store_credential :: "string obj \<Rightarrow> gen_state \<Rightarrow> gen_state" where
  "store_credential answers st =
     st\<lparr>credentials := obj_set (credentials st) (answer answers ''name'')
                          (answer answers ''body'')\<rparr>"

text \<open>Every accepted line is one of the lines entered: a prompt uses up its lines.\<close>

lemma getInput_shorter:
  "getInput lib p lines = Some (v, rest, out) \<Longrightarrow> length rest < length lines"
proof (induction lines arbitrary: v rest out)
  case Nil
  then show ?case by simp
next
  case (Cons entered lines)
  then show ?case
    by (fastforce simp: Let_def split: if_splits option.splits)
qed

lemma prompt_get_not_longer:
  "prompt_get lib props hist lines = Some (answers, hist', rest, out)
   \<Longrightarrow> length rest \<le> length lines"
proof (induction props arbitrary: hist lines answers hist' rest out)
  case Nil
  then show ?case by simp
next
  case (Cons np props)
  obtain nm p where np: "np = (nm, p)" by (cases np)
  from Cons.prems show ?case
    unfolding np
    by (fastforce split: if_splits option.splits dest: Cons.IH getInput_shorter)
qed

lemma prompt_get_shorter:
  assumes "prompt_get lib ((nm, p) # props) hist lines = Some (answers, hist', rest, out)"
      and "ask p = None"
  shows "length rest < length lines"
  using assms
  by (fastforce split: option.splits dest: prompt_get_not_longer getInput_shorter)

lemma form_shorter:
  assumes "prompt_get lib (name arr thing default_name @ props) hist lines
             = Some (answers, hist', rest, out)"
  shows "length rest < length lines"
  using assms unfolding name_def name_question_def
  by (simp del: prompt_get.simps) (erule prompt_get_shorter, simp)

function addJob :: "prompt_lib \<Rightarrow> string \<Rightarrow> history \<Rightarrow> string list \<Rightarrow> gen_state
    \<Rightarrow> (gen_state \<times> history \<times> string list \<times> console_line list) option" where
  "addJob lib default_name hist lines st =
     (case prompt_get lib (jobForm (jobs st) default_name) hist lines of
        None \<Rightarrow> None
      | Some (answers, hist', rest, out) \<Rightarrow>
          (if answer answers ''another'' = ''y''
           then case addJob lib default_name hist' rest (store_job answers st) of
                  None \<Rightarrow> None
                | Some (st', hist'', rest', out') \<Rightarrow> Some (st', hist'', rest', out @ out')
           else Some (store_job answers st, hist', rest, out @ [Out ''OK. Jobs written.''])))"
  by pat_completeness auto
termination
  by (relation "measure (\<lambda>(lib, default_name, hist, lines, st). length lines)")
    (auto simp: jobForm_def dest: form_shorter)

function addTrigger :: "prompt_lib \<Rightarrow> string \<Rightarrow> history \<Rightarrow> string list \<Rightarrow> gen_state
    \<Rightarrow> (gen_state \<times> history \<times> string list \<times> console_line list) option" where
  "addTrigger lib default_name hist lines st =
     (case prompt_get lib (triggerForm (triggers st) default_name) hist lines of
        None \<Rightarrow> None
      | Some (answers, hist', rest, out) \<Rightarrow>
          (if answer answers ''another'' = ''y''
           then case addTrigger lib default_name hist' rest (store_trigger answers st) of
                  None \<Rightarrow> None
                | Some (st', hist'', rest', out') \<Rightarrow> Some (st', hist'', rest', out @ out')
           else Some (store_trigger answers st, hist', rest,
                      out @ [Out ''OK. Triggers written.''])))"
  by pat_completeness auto
termination
  by (relation "measure (\<lambda>(lib, default_name, hist, lines, st). length lines)")
    (auto simp: triggerForm_def dest: form_shorter)

function addCredential :: "prompt_lib \<Rightarrow> string \<Rightarrow> history \<Rightarrow> string list \<Rightarrow> gen_state
    \<Rightarrow> (gen_state \<times> history \<times> string list \<times> console_line list) option" where
  "addCredential lib default_name hist lines st =
     (case prompt_get lib (credentialForm (credentials st) default_name) hist lines of
        None \<Rightarrow> None
      | Some (answers, hist', rest, out) \<Rightarrow>
          (if answer answers ''another'' = ''y''
           then case addCredential lib default_name hist' rest (store_credential answers st) of
                  None \<Rightarrow> None
                | Some (st', hist'', rest', out') \<Rightarrow> Some (st', hist'', rest', out @ out')
           else Some (store_credential answers st, hist', rest,
                      out @ [Out ''OK. Credentials written.''])))"
  by pat_completeness auto
termination
  by (relation "measure (\<lambda>(lib, default_name, hist, lines, st). length lines)")
    (auto simp: credentialForm_def dest: form_shorter)

declare addJob.simps [simp del] addTrigger.simps [simp del] addCredential.simps [simp del]

subsection \<open>Document assembly\<close>

text \<open>
  What the outside gives the generator: the default names made when the forms are built,
  the file system's answer to \<open>fs.readFileSync(path)\<close> and to the final
  \<open>fs.writeFileSync\<close>, and the serializer \<open>yaml.dump\<close>.
\<close>

record gen_env =
  job_default :: string
  trigger_default :: string
  credential_default :: string
  read_file :: "string \<Rightarrow> js_error + string"
  write_answer :: "js_error option"
  yaml_dump :: "gen_state \<Rightarrow> string"

text \<open>
  Lines 246 to 249: the \<open>reduce\<close> over \<open>Object.keys(credentials)\<close>, with the accumulator;
  the first file that cannot be read throws.
\<close>

fun inline_files :: "(string \<Rightarrow> js_error + string) \<Rightarrow> string obj \<Rightarrow> string list \<Rightarrow> string obj
    \<Rightarrow> js_error + string obj" where
  "inline_files rd creds [] acc = Inr acc"
| "inline_files rd creds (key # keys) acc =
     (case map_of creds key of
        None \<Rightarrow> Inl TypeError
      | Some path \<Rightarrow>
          (case rd path of
             Inl e \<Rightarrow> Inl e
           | Inr content \<Rightarrow> inline_files rd creds keys (obj_set acc key content)))"

text \<open>
  Lines 243 to 257. The second \<open>reduce\<close> reads the identifier \<open>expression\<close>, which is
  declared nowhere, for the first job; the assignment to \<open>credentials\<close> has been made by
  then. The result is the state and what was thrown.
\<close>

definition monolith_transform :: "(string \<Rightarrow> js_error + string) \<Rightarrow> gen_state
    \<Rightarrow> gen_state \<times> js_error option" where
  "monolith_transform rd st =
     (case inline_files rd (credentials st) (Object_keys (credentials st)) [] of
        Inl e \<Rightarrow> (st, Some e)
      | Inr inlined \<Rightarrow>
          (st\<lparr>credentials := inlined\<rparr>,
           if Object_keys (jobs st) = [] then None else Some (ReferenceError ''expression'')))"

text \<open>
  The end of a run: the exit code, the file written (its path and its text), the
  console and the accumulators.
\<close>

record gen_outcome =
  gen_exit_code :: nat
  written :: "(string \<times> string) option"
  gen_console :: "console_line list"
  final :: gen_state

text \<open>
  The final \<open>catch\<close> (lines 266 to 268) prints the message; it sets no exit code, so
  the process ends with code 0.
\<close>

definition caught :: "js_error \<Rightarrow> gen_state \<Rightarrow> console_line list \<Rightarrow> gen_outcome" where
  "caught e st out =
     \<lparr>gen_exit_code = 0, written = None,
      gen_console = out @ [Out ''That didn't work. Error:'', OutMessage e],
      final = st\<rparr>"

text \<open>Lines 259 to 264.\<close>

definition write_document :: "gen_env \<Rightarrow> string \<Rightarrow> gen_state \<Rightarrow> console_line list
    \<Rightarrow> gen_outcome" where
  "write_document env outputPath st out =
     (let content = yaml_dump env st;
          out' = out @ [Out ''Project yaml configuration complete:'', Out content,
                        Out (''Writing to '' @ outputPath)]
      in case write_answer env of
           Some e \<Rightarrow> caught e st out'
         | None \<Rightarrow>
             \<lparr>gen_exit_code = 0, written = Some (outputPath, content),
              gen_console = out' @ [Out ''Done.''], final = st\<rparr>)"

text \<open>The last \<open>then\<close> of the chain (lines 242 to 265), after the three loops.\<close>

definition assemble :: "gen_env \<Rightarrow> string \<Rightarrow> string \<Rightarrow> gen_state \<Rightarrow> console_line list
    \<Rightarrow> gen_outcome" where
  "assemble env yamlType outputPath st out =
     (if yamlType = ''monolith''
      then case monolith_transform (read_file env) st of
             (st', Some e) \<Rightarrow> caught e st' out
           | (st', None) \<Rightarrow> write_document env outputPath st' out
      else write_document env outputPath st out)"

subsection \<open>The whole generator\<close>

text \<open>\<open>setDest\<close> and \<open>setType\<close>\<close>

definition destForm :: "(string \<times> question) list" where
  "destForm =
     [(''dest'', plain\<lparr>description := ''Where do you want to save the generated yaml?'',
                       required := True, dflt := Some ''./tmp/project.yaml''\<rparr>)]"

definition typeForm :: "(string \<times> question) list" where
  "typeForm =
     [(''type'', plain\<lparr>description :=
                         ''Do you want to generate a monolith project.yaml or a ''
                         @ ''URI-based project.yaml?'' @ [CHR 0x0A] @ '' (monolith | uri)'',
                       required := True, dflt := Some ''uri'',
                       conform := Some (\<lambda>v. v \<in> set [''uri'', ''monolith''])\<rparr>)]"

text \<open>
  The chain of lines 224 to 268 on the lines the user enters. \<open>None\<close>: the input ended
  before the prompts were answered.
\<close>

definition generate_project :: "prompt_lib \<Rightarrow> gen_env \<Rightarrow> string list \<Rightarrow> gen_outcome option" where
  "generate_project lib env lines =
     (case prompt_get lib destForm [] lines of
        None \<Rightarrow> None
      | Some (dest, h1, l1, o1) \<Rightarrow>
     (case prompt_get lib typeForm h1 l1 of
        None \<Rightarrow> None
      | Some (ty, h2, l2, o2) \<Rightarrow>
     (case addTrigger lib (trigger_default env) h2 l2
             \<lparr>jobs = [], triggers = [], credentials = []\<rparr> of
        None \<Rightarrow> None
      | Some (s3, h3, l3, o3) \<Rightarrow>
     (case addCredential lib (credential_default env) h3 l3 s3 of
        None \<Rightarrow> None
      | Some (s4, h4, l4, o4) \<Rightarrow>
     (case addJob lib (job_default env) h4 l4 s4 of
        None \<Rightarrow> None
      | Some (s5, h5, l5, o5) \<Rightarrow>
          Some (assemble env (answer ty ''type'') (answer dest ''dest'') s5
                  (o1 @ o2 @ [Out ''Let's add some triggers.''] @ o3
                   @ [Out ''Let's add some credentials.''] @ o4
                   @ [Out ''Let's add your first job.''] @ o5)))))))"

subsection \<open>Example inputs of the generator\<close>

text \<open>
  The package as it is published: the \<open>before\<close> hook runs first, the check sees the line
  as it was read, and a property that is not asked is delivered with its default
  (\<open>schema.default || ''\<close>).
\<close>

definition example_lib :: prompt_lib where
  "example_lib = \<lparr>hook_order = HookThenCheckRaw, unasked_default = True\<rparr>"

text \<open>A file system that holds one file, \<open>./cred.json\<close>, and a serializer left abstract.\<close>

definition example_env :: gen_env where
  "example_env =
     \<lparr>job_default = ''brave-lion-job'',
      trigger_default = ''calm-otter-trigger'',
      credential_default = ''wise-owl-credential'',
      read_file = (\<lambda>path. if path = ''./cred.json'' then Inr ''{}''
                           else Inl (FsError ''ENOENT: no such file or directory'')),
      write_answer = None,
      yaml_dump = (\<lambda>st. ''(yaml)'')\<rparr>"

definition empty_state :: gen_state where
  "empty_state = \<lparr>jobs = [], triggers = [], credentials = []\<rparr>"


section \<open>Properties of the release uploader\<close>

lemmas uploader_eval = derive_target_def falsy_arg_def tag_pattern_def repo_pattern_def
  is_digit_def is_word_def example_world_def build_asset_def existing_asset_def

subsection \<open>The patterns\<close>

lemma match_here_slash:
  "CHR ''/'' \<noteq> c \<Longrightarrow> match_here repo_pattern (c # cs) False [] = None"
  by (simp add: repo_pattern_def)

lemma repo_pattern_needs_slash:
  "CHR ''/'' \<notin> set path \<Longrightarrow> js_match repo_pattern path = None"
proof (induction path)
  case Nil
  show ?case by (simp add: repo_pattern_def)
next
  case (Cons c cs)
  then show ?case by (simp add: match_here_slash)
qed

text \<open>
  The patterns accept more than \<open><repo>-v<major>.<minor>.<patch>.tgz\<close>: a version of
  four numbers passes both, and the tag is made of its last three.
\<close>

lemma four_number_version_accepted:
  "derive_target (Some ''ghp'') (ArgString ''./builds/myrepo-v1.2.3.4.tgz'')
     = Inr (''./builds/myrepo-v1.2.3.4.tgz'', ''v2.3.4'', ''myrepo'')"
  by (simp add: uploader_eval)

subsection \<open>Failing before the lookup\<close>

lemma derive_fail_exit:
  "derive_target token file_arg = Inl e \<Longrightarrow>
   upload_release token file_arg u d w = \<lparr>exit_code = 1, requests = [], printed = [OutMessage e]\<rparr>"
  by (simp add: upload_release_def)

lemma derive_no_match:
  "js_match tag_pattern path = None \<or> js_match repo_pattern path = None \<Longrightarrow>
   \<exists>e. derive_target token (ArgString path) = Inl e"
  by (auto simp: derive_target_def split: option.splits)

lemma example_target:
  "derive_target (Some ''ghp'') (ArgString ''./builds/myrepo-v1.2.3.tgz'')
     = Inr (''./builds/myrepo-v1.2.3.tgz'', ''v1.2.3'', ''myrepo'')"
  by (simp add: uploader_eval)

text \<open>
  C1, as the claim states it, fails: the bare file name \<open>myrepo-v1.2.3.tgz\<close> has no
  \<open>/\<close>, which the pattern of the repository name asks for, so neither a tag nor a
  repository name is derived from it (indexing \<open>null\<close> throws).
\<close>

theorem bare_filename_not_derived:
  "derive_target (Some ''ghp'') (ArgString ''myrepo-v1.2.3.tgz'') = Inl TypeError"
  by (simp add: uploader_eval)

text \<open>
  C1, amended: for the path \<open>./builds/myrepo-v1.2.3.tgz\<close> (and a token) the uploader
  derives the tag \<open>v1.2.3\<close> and the repository name \<open>myrepo\<close>; for every \<open>-i\<close> string on
  which one of the two patterns of the code does not match, the program exits with
  code 1 and has sent no request; and the pattern of the repository name matches no
  string without a \<open>/\<close>.
\<close>

theorem target_derivation:
  "(token \<noteq> None \<and> token \<noteq> Some [] \<longrightarrow>
      derive_target token (ArgString ''./builds/myrepo-v1.2.3.tgz'')
        = Inr (''./builds/myrepo-v1.2.3.tgz'', ''v1.2.3'', ''myrepo''))
   \<and> (js_match tag_pattern path = None \<or> js_match repo_pattern path = None \<longrightarrow>
        exit_code (upload_release token (ArgString path) u d w) = 1
        \<and> requests (upload_release token (ArgString path) u d w) = [])
   \<and> (CHR ''/'' \<notin> set path \<longrightarrow> js_match repo_pattern path = None)"
proof (intro conjI impI)
  assume "token \<noteq> None \<and> token \<noteq> Some []"
  then show "derive_target token (ArgString ''./builds/myrepo-v1.2.3.tgz'')
        = Inr (''./builds/myrepo-v1.2.3.tgz'', ''v1.2.3'', ''myrepo'')"
    by (simp add: uploader_eval)
next
  assume "js_match tag_pattern path = None \<or> js_match repo_pattern path = None"
  then obtain e where "derive_target token (ArgString path) = Inl e"
    using derive_no_match by blast
  then have r: "upload_release token (ArgString path) u d w
      = \<lparr>exit_code = 1, requests = [], printed = [OutMessage e]\<rparr>"
    by (rule derive_fail_exit)
  show "exit_code (upload_release token (ArgString path) u d w) = 1" by (simp add: r)
  show "requests (upload_release token (ArgString path) u d w) = []" by (simp add: r)
next
  assume "CHR ''/'' \<notin> set path"
  then show "js_match repo_pattern path = None" by (rule repo_pattern_needs_slash)
qed

theorem target_derivation_witness:
  "derive_target (Some ''ghp'') (ArgString ''./builds/myrepo-v1.2.3.tgz'')
        = Inr (''./builds/myrepo-v1.2.3.tgz'', ''v1.2.3'', ''myrepo'')
   \<and> CHR ''/'' \<notin> set ''myrepo-v1.2.3.tgz''
   \<and> js_match repo_pattern ''myrepo-v1.2.3.tgz'' = None
   \<and> exit_code (upload_release (Some ''ghp'') (ArgString ''myrepo-v1.2.3.tgz'') False False
         (example_world [] 10)) = 1
   \<and> requests (upload_release (Some ''ghp'') (ArgString ''myrepo-v1.2.3.tgz'') False False
         (example_world [] 10)) = []"
  using target_derivation
    [of "Some ''ghp''" "''myrepo-v1.2.3.tgz''" False False "example_world [] 10"]
  by simp

subsection \<open>After the lookup\<close>

lemma reach_lookup:
  assumes "derive_target token file_arg = Inr (path, tag, repo)"
      and "lookup_answer w = Inr rel"
  shows "upload_release token file_arg u d w =
     (let t = uploadUnlessExists repo u w rel in
       case rejection t of
         None \<Rightarrow>
           \<lparr>exit_code = 0, requests = GetReleaseByTag owner repo tag # calls t,
            printed = console t\<rparr>
       | Some e \<Rightarrow>
           \<lparr>exit_code = (if instanceof_AlreadyExists e then 2 else 1),
            requests = GetReleaseByTag owner repo tag # calls t,
            printed = console t @ [logError d e]\<rparr>)"
  using assms
  by (simp add: upload_release_def lookup_and_upload_def findBuildFor_def Let_def
      split: option.splits)

lemma example_lookup:
  "lookup_answer (example_world as n) = Inr \<lparr>release_id = 1, assets = as\<rparr>"
  by (simp add: example_world_def)

lemma example_stat: "stat_answer (example_world as n) = Inr n"
  by (simp add: example_world_def)

text \<open>
  C2: in a run that reaches the lookup and finds a release with an asset named
  \<open>build.tgz\<close> (\<open>existing\<close>, the first such asset, as the code takes it), with a local
  artifact whose size can be read: if the sizes are equal, the run exits with code 2
  and sends no upload request; if they differ and \<open>-u\<close> is not set, the run exits with
  code 2 and sends neither a delete nor an upload request.
\<close>

theorem existing_asset_exits_2:
  assumes "derive_target token file_arg = Inr (path, tag, repo)"
      and "lookup_answer w = Inr rel"
      and "existing_asset rel = Some existing"
      and "stat_answer w = Inr localSize"
  shows "(localSize = asset_size existing \<longrightarrow>
            exit_code (upload_release token file_arg updateExisting debug w) = 2
            \<and> filter is_upload
                 (requests (upload_release token file_arg updateExisting debug w)) = [])
       \<and> (localSize \<noteq> asset_size existing \<and> \<not> updateExisting \<longrightarrow>
            exit_code (upload_release token file_arg updateExisting debug w) = 2
            \<and> filter is_delete
                 (requests (upload_release token file_arg updateExisting debug w)) = []
            \<and> filter is_upload
                 (requests (upload_release token file_arg updateExisting debug w)) = [])"
  using assms
  by (simp add: reach_lookup [OF assms(1,2)] uploadUnlessExists_def check_existing_def)

theorem existing_asset_exits_2_witness:
  "exit_code (upload_release (Some ''ghp'') (ArgString ''./builds/myrepo-v1.2.3.tgz'') True False
      (example_world [build_asset 10] 10)) = 2
   \<and> filter is_upload (requests (upload_release (Some ''ghp'')
        (ArgString ''./builds/myrepo-v1.2.3.tgz'') True False
        (example_world [build_asset 10] 10))) = []
   \<and> exit_code (upload_release (Some ''ghp'') (ArgString ''./builds/myrepo-v1.2.3.tgz'') False False
      (example_world [build_asset 7] 10)) = 2
   \<and> filter is_delete (requests (upload_release (Some ''ghp'')
        (ArgString ''./builds/myrepo-v1.2.3.tgz'') False False
        (example_world [build_asset 7] 10))) = []
   \<and> filter is_upload (requests (upload_release (Some ''ghp'')
        (ArgString ''./builds/myrepo-v1.2.3.tgz'') False False
        (example_world [build_asset 7] 10))) = []"
proof -
  have same:
    "existing_asset \<lparr>release_id = 1, assets = [build_asset 10]\<rparr> = Some (build_asset 10)"
    by (simp add: existing_asset_def build_asset_def)
  have differ:
    "existing_asset \<lparr>release_id = 1, assets = [build_asset 7]\<rparr> = Some (build_asset 7)"
    by (simp add: existing_asset_def build_asset_def)
  show ?thesis
    using existing_asset_exits_2 [OF example_target example_lookup same example_stat,
        where updateExisting = True and debug = False]
      existing_asset_exits_2 [OF example_target example_lookup differ example_stat,
        where updateExisting = False and debug = False]
    by (simp add: build_asset_def)
qed

text \<open>
  C3, as the claim states it, fails: with no asset named \<open>build.tgz\<close> and a local
  artifact that cannot be read, no upload request is sent and the exit code is 1.
\<close>

theorem unreadable_artifact_no_upload:
  "length (filter is_upload (requests (upload_release (Some ''ghp'')
      (ArgString ''./builds/myrepo-v1.2.3.tgz'') False False
      ((example_world [] 10)\<lparr>read_answer := Inl (FsError ''ENOENT: no such file or directory'')\<rparr>))))
     = 0
   \<and> exit_code (upload_release (Some ''ghp'')
      (ArgString ''./builds/myrepo-v1.2.3.tgz'') False False
      ((example_world [] 10)\<lparr>read_answer := Inl (FsError ''ENOENT: no such file or directory'')\<rparr>))
     = 1"
  by (simp add: upload_release_def lookup_and_upload_def findBuildFor_def uploadUnlessExists_def
      check_existing_def delete_then_upload_def upload_step_def Let_def uploader_eval)

text \<open>
  C3, amended: in a run that reaches the lookup and finds a release: if an asset named
  \<open>build.tgz\<close> exists with a size different from the local artifact's and \<open>-u\<close> is set,
  the request after the lookup deletes that asset, and exactly one upload request
  follows it if the deletion succeeds and the artifact can be read, none otherwise; if
  no asset named \<open>build.tgz\<close> exists, exactly one upload request, with the asset name
  \<open>build.tgz\<close>, is sent if the artifact can be read, none otherwise, and if that upload
  succeeds the run exits with code 0 and the returned download URL is printed.
\<close>

theorem replace_or_upload:
  fixes token file_arg updateExisting debug w r
  assumes "derive_target token file_arg = Inr (path, tag, repo)"
      and "lookup_answer w = Inr rel"
  defines "r \<equiv> upload_release token file_arg updateExisting debug w"
  shows "(existing_asset rel = Some existing \<and> stat_answer w = Inr localSize
            \<and> localSize \<noteq> asset_size existing \<and> updateExisting \<longrightarrow>
          requests r =
            [GetReleaseByTag owner repo tag, DeleteReleaseAsset owner repo (asset_id existing)]
            @ (case (delete_answer w, read_answer w) of
                 (None, Inr content) \<Rightarrow>
                   [UploadReleaseAsset owner repo ''build.tgz'' (release_id rel) content]
               | _ \<Rightarrow> []))
       \<and> (existing_asset rel = None \<longrightarrow>
          requests r =
            GetReleaseByTag owner repo tag
            # (case read_answer w of
                 Inr content \<Rightarrow>
                   [UploadReleaseAsset owner repo ''build.tgz'' (release_id rel) content]
               | Inl e \<Rightarrow> [])
          \<and> (\<forall>url. (\<exists>content. read_answer w = Inr content) \<and> upload_answer w = Inr url \<longrightarrow>
                exit_code r = 0
                \<and> Out ('' Build uploaded as release asset: '' @ url) \<in> set (printed r)))"
proof (intro conjI impI allI)
  assume "existing_asset rel = Some existing \<and> stat_answer w = Inr localSize
            \<and> localSize \<noteq> asset_size existing \<and> updateExisting"
  then show "requests r =
            [GetReleaseByTag owner repo tag, DeleteReleaseAsset owner repo (asset_id existing)]
            @ (case (delete_answer w, read_answer w) of
                 (None, Inr content) \<Rightarrow>
                   [UploadReleaseAsset owner repo ''build.tgz'' (release_id rel) content]
               | _ \<Rightarrow> [])"
    unfolding r_def
    by (simp add: reach_lookup [OF assms(1,2)] uploadUnlessExists_def check_existing_def
        delete_then_upload_def upload_step_def Let_def split: option.splits sum.splits)
next
  assume "existing_asset rel = None"
  then show "requests r =
            GetReleaseByTag owner repo tag
            # (case read_answer w of
                 Inr content \<Rightarrow>
                   [UploadReleaseAsset owner repo ''build.tgz'' (release_id rel) content]
               | Inl e \<Rightarrow> [])"
    unfolding r_def
    by (simp add: reach_lookup [OF assms(1,2)] uploadUnlessExists_def check_existing_def
        delete_then_upload_def upload_step_def Let_def split: option.splits sum.splits)
next
  fix url
  assume a: "existing_asset rel = None"
    and b: "(\<exists>content. read_answer w = Inr content) \<and> upload_answer w = Inr url"
  from b obtain content where c: "read_answer w = Inr content" by blast
  from a b c show "exit_code r = 0"
    unfolding r_def
    by (simp add: reach_lookup [OF assms(1,2)] uploadUnlessExists_def check_existing_def
        delete_then_upload_def upload_step_def Let_def)
  from a b c show "Out ('' Build uploaded as release asset: '' @ url) \<in> set (printed r)"
    unfolding r_def
    by (simp add: reach_lookup [OF assms(1,2)] uploadUnlessExists_def check_existing_def
        delete_then_upload_def upload_step_def Let_def)
qed

theorem replace_or_upload_witness:
  "requests (upload_release (Some ''ghp'') (ArgString ''./builds/myrepo-v1.2.3.tgz'') True False
      (example_world [build_asset 7] 10))
     = [GetReleaseByTag ''OpenFn'' ''myrepo'' ''v1.2.3'',
        DeleteReleaseAsset ''OpenFn'' ''myrepo'' 5,
        UploadReleaseAsset ''OpenFn'' ''myrepo'' ''build.tgz'' 1 ''tarball'']
   \<and> requests (upload_release (Some ''ghp'') (ArgString ''./builds/myrepo-v1.2.3.tgz'') False False
      (example_world [] 10))
     = [GetReleaseByTag ''OpenFn'' ''myrepo'' ''v1.2.3'',
        UploadReleaseAsset ''OpenFn'' ''myrepo'' ''build.tgz'' 1 ''tarball'']
   \<and> exit_code (upload_release (Some ''ghp'') (ArgString ''./builds/myrepo-v1.2.3.tgz'') False False
      (example_world [] 10)) = 0
   \<and> Out '' Build uploaded as release asset: https://example.org/build.tgz''
       \<in> set (printed (upload_release (Some ''ghp'') (ArgString ''./builds/myrepo-v1.2.3.tgz'')
            False False (example_world [] 10)))"
  using replace_or_upload [OF example_target example_lookup [of "[build_asset 7]" 10],
      where existing = "build_asset 7" and localSize = 10 and updateExisting = True
        and debug = False]
    replace_or_upload [OF example_target example_lookup [of "[]" 10],
      where updateExisting = False and debug = False]
  by (simp add: existing_asset_def example_world_def build_asset_def owner_def)


section \<open>Properties of the project spec generator\<close>

lemmas generator_eval = generate_project_def assemble_def monolith_transform_def caught_def
  write_document_def example_env_def example_lib_def empty_state_def
  Object_keys_def is_array_index_def is_digit_def destForm_def typeForm_def
  triggerForm_def credentialForm_def jobForm_def name_def name_question_def another_def
  plain_def trigger_types_def type_question_def cron_question_def criteria_question_def
  success_question_def failure_question_def addJob.simps addTrigger.simps addCredential.simps
  Let_def default_line_def line_read_def run_before_def acceptable_def refusal_def before_name_def
  replacing_notice_def
  duplicateCheck_def type_is_def unasked_value_def answer_def rest_of_def
  store_trigger_def store_job_def store_credential_def removeFalsy_def obj_set_def quoted_def

subsection \<open>Objects\<close>

lemma set_Object_keys: "set (Object_keys obj) = fst ` set obj"
  by (auto simp: Object_keys_def)

lemma map_of_obj_set:
  "k \<noteq> ''__proto__'' \<Longrightarrow> map_of (obj_set obj k v) k' = (if k' = k then Some v else map_of obj k')"
  by (simp add: obj_set_def AList.update_conv')

lemma map_of_obj_set_other:
  "k' \<noteq> k \<Longrightarrow> map_of (obj_set obj k v) k' = map_of obj k'"
  by (simp add: obj_set_def AList.update_conv')

lemma map_of_key: "map_of obj k = Some v \<Longrightarrow> k \<in> fst ` set obj"
  by (metis domI dom_map_of_conv_image_fst)

subsection \<open>Monolith mode\<close>

lemma inline_files_result:
  assumes "inline_files rd creds keys acc = Inr acc'"
  shows "(\<forall>k\<in>set keys. k \<noteq> ''__proto__'' \<longrightarrow>
            (\<exists>path content. map_of creds k = Some path \<and> rd path = Inr content
               \<and> map_of acc' k = Some content))
         \<and> (\<forall>k. k \<notin> set keys \<longrightarrow> map_of acc' k = map_of acc k)"
  using assms
proof (induction keys arbitrary: acc)
  case Nil
  then show ?case by simp
next
  case (Cons key keys)
  from Cons.prems obtain path content where
    p: "map_of creds key = Some path" and c: "rd path = Inr content"
    and r: "inline_files rd creds keys (obj_set acc key content) = Inr acc'"
    by (auto split: option.splits sum.splits)
  note ih = Cons.IH [OF r]
  show ?case
  proof (intro conjI ballI allI impI)
    fix k assume k: "k \<in> set (key # keys)" and np: "k \<noteq> ''__proto__''"
    show "\<exists>path content. map_of creds k = Some path \<and> rd path = Inr content
               \<and> map_of acc' k = Some content"
    proof (cases "k \<in> set keys")
      case True
      with ih np show ?thesis by blast
    next
      case False
      with k have kk: "k = key" by simp
      from False ih have "map_of acc' k = map_of (obj_set acc key content) k" by blast
      with kk np have "map_of acc' k = Some content" by (simp add: map_of_obj_set)
      with p c kk show ?thesis by blast
    qed
  next
    fix k assume k: "k \<notin> set (key # keys)"
    then have "map_of acc' k = map_of (obj_set acc key content) k" using ih by simp
    also have "\<dots> = map_of acc k" using k by (simp add: map_of_obj_set_other)
    finally show "map_of acc' k = map_of acc k" .
  qed
qed

lemma inline_files_succeeds:
  assumes "\<forall>k\<in>set keys. \<exists>path content. map_of creds k = Some path \<and> rd path = Inr content"
  shows "\<exists>acc'. inline_files rd creds keys acc = Inr acc'"
  using assms
proof (induction keys arbitrary: acc)
  case Nil
  then show ?case by simp
next
  case (Cons key keys)
  then show ?case by fastforce
qed

lemma inline_files_fails:
  assumes "k \<in> set keys" and "map_of creds k = Some path" and "rd path = Inl e"
  shows "\<exists>e'. inline_files rd creds keys acc = Inl e'"
  using assms
proof (induction keys arbitrary: acc)
  case Nil
  then show ?case by simp
next
  case (Cons key keys)
  then show ?case by (auto split: option.splits sum.splits)
qed

text \<open>
  C4, as the claim states it, fails: in a run in monolith mode whose one credential
  names a file that cannot be read, the final \<open>catch\<close> prints the message and the
  process ends with exit code 0.
\<close>

theorem unreadable_credential_exits_0:
  "map_option gen_exit_code
     (generate_project example_lib example_env
        [[], ''monolith'', ''t1'', [], [], ''n'', ''c1'', ''./missing.json'', ''n'',
         ''j1'', ''./job.js'', [], ''t1'', ''c1'', ''n'']) = Some 0"
  by (simp add: generator_eval)

text \<open>
  C4, amended: in monolith mode, after the collection loops, if every credential's
  file can be read, every credential's stored path is replaced by the text of the
  file at that path; if the file of some credential cannot be read, the run aborts:
  the final \<open>catch\<close> prints the error's message, the output document is not written,
  the accumulators are as the loops left them, and the exit code is 0.
\<close>

theorem monolith_inlines_credentials:
  fixes env out st outputPath r
  defines "r \<equiv> assemble env ''monolith'' outputPath st out"
  shows "((\<forall>k path. map_of (credentials st) k = Some path \<longrightarrow>
              (\<exists>content. read_file env path = Inr content)) \<longrightarrow>
          (\<forall>k path. k \<noteq> ''__proto__'' \<and> map_of (credentials st) k = Some path \<longrightarrow>
              (\<exists>content. read_file env path = Inr content
                 \<and> map_of (credentials (final r)) k = Some content)))
       \<and> ((\<exists>k path e. map_of (credentials st) k = Some path \<and> read_file env path = Inl e) \<longrightarrow>
            written r = None \<and> gen_exit_code r = 0 \<and> final r = st
            \<and> (\<exists>e. gen_console r = out @ [Out ''That didn't work. Error:'', OutMessage e]))"
    (is "(?readable \<longrightarrow> ?inlined) \<and> (?unreadable \<longrightarrow> ?aborted)")
proof (rule conjI)
  show "?readable \<longrightarrow> ?inlined"
  proof (rule impI)
    assume ok: ?readable
    have "\<forall>k\<in>set (Object_keys (credentials st)).
            \<exists>path content. map_of (credentials st) k = Some path
              \<and> read_file env path = Inr content"
    proof
      fix k assume "k \<in> set (Object_keys (credentials st))"
      then have "k \<in> fst ` set (credentials st)" by (simp add: set_Object_keys)
      then obtain path where "map_of (credentials st) k = Some path"
        by (metis domD dom_map_of_conv_image_fst)
      with ok show "\<exists>path content. map_of (credentials st) k = Some path
          \<and> read_file env path = Inr content" by blast
    qed
    then obtain inlined where
      i: "inline_files (read_file env) (credentials st) (Object_keys (credentials st)) []
            = Inr inlined"
      using inline_files_succeeds by blast
    have f: "credentials (final r) = inlined"
      unfolding r_def
      by (simp add: assemble_def monolith_transform_def i write_document_def caught_def Let_def
          split: option.splits)
    show ?inlined
    proof (intro allI impI)
      fix k path
      assume a: "k \<noteq> ''__proto__'' \<and> map_of (credentials st) k = Some path"
      then have "k \<in> set (Object_keys (credentials st))"
        by (simp add: set_Object_keys map_of_key)
      with inline_files_result [OF i] a
      show "\<exists>content. read_file env path = Inr content
                   \<and> map_of (credentials (final r)) k = Some content"
        unfolding f by fastforce
    qed
  qed
next
  show "?unreadable \<longrightarrow> ?aborted"
  proof (rule impI)
    assume ?unreadable
    then obtain k path e where
      a: "map_of (credentials st) k = Some path" and b: "read_file env path = Inl e" by blast
    from a have "k \<in> set (Object_keys (credentials st))"
      by (simp add: set_Object_keys map_of_key)
    from inline_files_fails [where rd = "read_file env" and acc = "[]", OF this a b]
    obtain e' where
      i: "inline_files (read_file env) (credentials st) (Object_keys (credentials st)) []
            = Inl e'"
      by blast
    show ?aborted
      unfolding r_def
      by (simp add: assemble_def monolith_transform_def i caught_def)
  qed
qed

theorem monolith_inlines_credentials_witness:
  "map_of (credentials (final (assemble example_env ''monolith'' ''./tmp/project.yaml''
      (empty_state\<lparr>credentials := [(''c1'', ''./cred.json'')]\<rparr>) []))) ''c1'' = Some ''{}''
   \<and> written (assemble example_env ''monolith'' ''./tmp/project.yaml''
      (empty_state\<lparr>credentials := [(''c1'', ''./missing.json'')]\<rparr>) []) = None
   \<and> gen_exit_code (assemble example_env ''monolith'' ''./tmp/project.yaml''
      (empty_state\<lparr>credentials := [(''c1'', ''./missing.json'')]\<rparr>) []) = 0
   \<and> final (assemble example_env ''monolith'' ''./tmp/project.yaml''
      (empty_state\<lparr>credentials := [(''c1'', ''./missing.json'')]\<rparr>) [])
       = empty_state\<lparr>credentials := [(''c1'', ''./missing.json'')]\<rparr>"
proof -
  let ?good = "empty_state\<lparr>credentials := [(''c1'', ''./cred.json'')]\<rparr>"
  let ?bad = "empty_state\<lparr>credentials := [(''c1'', ''./missing.json'')]\<rparr>"
  have readable: "\<forall>k path. map_of (credentials ?good) k = Some path \<longrightarrow>
      (\<exists>content. read_file example_env path = Inr content)"
    by (simp add: example_env_def)
  have key: "''c1'' \<noteq> ''__proto__'' \<and> map_of (credentials ?good) ''c1'' = Some ''./cred.json''"
    by simp
  have unreadable: "\<exists>k path e. map_of (credentials ?bad) k = Some path
      \<and> read_file example_env path = Inl e"
    by (rule exI [of _ "''c1''"], rule exI [of _ "''./missing.json''"])
      (simp add: example_env_def)
  note good_run = monolith_inlines_credentials
    [of ?good example_env "''./tmp/project.yaml''" "[]", THEN conjunct1, THEN mp, OF readable,
     THEN spec, THEN spec, THEN mp, OF key]
  note bad_run = monolith_inlines_credentials
    [of ?bad example_env "''./tmp/project.yaml''" "[]", THEN conjunct2, THEN mp, OF unreadable]
  from good_run have good: "map_of (credentials (final (assemble example_env ''monolith''
      ''./tmp/project.yaml'' ?good []))) ''c1'' = Some ''{}''"
    by (simp add: example_env_def)
  show ?thesis
    using good bad_run by simp
qed

subsection \<open>The name field\<close>





lemma name_question_before: "run_before (name_question arr thing d) line = before_name line"
  by (simp add: run_before_def name_question_def)

subsection \<open>The type field of the trigger form\<close>

lemma type_question_accepts:
  "acceptable type_question v \<longleftrightarrow> v \<in> set trigger_types"
  by (auto simp: acceptable_def type_question_def plain_def trigger_types_def)

lemma type_question_line:
  "line_read type_question entered = (if entered = [] then ''cron'' else entered)"
  by (simp add: line_read_def default_line_def type_question_def plain_def)

lemma type_question_before: "run_before type_question line = (line, [])"
  by (simp add: run_before_def type_question_def plain_def)

lemma cron_is_type: "''cron'' \<in> set trigger_types"
  by (simp add: trigger_types_def)

lemma type_delivered:
  "getInput lib type_question lines = Some (v, rest, out) \<Longrightarrow> v \<in> set trigger_types"
proof (induction lines arbitrary: v rest out)
  case Nil
  then show ?case by simp
next
  case (Cons entered lines)
  show ?case
  proof (cases "acceptable type_question (line_read type_question entered)")
    case True
    with Cons.prems have "v = line_read type_question entered"
      by (simp add: Let_def type_question_before)
    with True show ?thesis by (simp only: type_question_accepts)
  next
    case False
    with Cons.prems obtain out' where "getInput lib type_question lines = Some (v, rest, out')"
      by (auto simp: Let_def type_question_before split: option.splits)
    then show ?thesis by (rule Cons.IH)
  qed
qed

text \<open>
  C5, as the claim states it, fails: \<open>scheduled\<close>, \<open>on-success\<close> and \<open>on-failure\<close> are
  each refused (the message is shown and the field is asked again); the values of the
  code are \<open>cron\<close>, \<open>message\<close>, \<open>success\<close> and \<open>failure\<close>.
\<close>

theorem scheduled_refused:
  "getInput example_lib type_question [''scheduled'', ''on-success'', ''on-failure'', ''cron'']
     = Some (''cron'', [], refusal type_question @ refusal type_question @ refusal type_question)
   \<and> refusal type_question \<noteq> []"
  by (simp add: type_question_def plain_def trigger_types_def line_read_def default_line_def
      run_before_def acceptable_def refusal_def example_lib_def Let_def)

text \<open>
  C5, amended: the type field accepts exactly the four literal values \<open>cron\<close>,
  \<open>message\<close>, \<open>success\<close> and \<open>failure\<close>: each of them is delivered as entered, a line left
  empty stands for the default \<open>cron\<close>, any other line is refused and the field is asked
  again, with the message on the console; so the value delivered is always one of the
  four.
\<close>

theorem type_field_values:
  "trigger_types = [''cron'', ''message'', ''success'', ''failure'']
   \<and> (entered \<in> set trigger_types \<longrightarrow>
        getInput lib type_question (entered # rest) = Some (entered, rest, []))
   \<and> (entered = [] \<longrightarrow>
        getInput lib type_question (entered # rest) = Some (''cron'', rest, []))
   \<and> (entered \<noteq> [] \<and> entered \<notin> set trigger_types \<longrightarrow>
        getInput lib type_question (entered # rest)
          = (case getInput lib type_question rest of
               None \<Rightarrow> None
             | Some (v, rest', out) \<Rightarrow> Some (v, rest', refusal type_question @ out)))
   \<and> (getInput lib type_question lines = Some (v, rest', out) \<longrightarrow> v \<in> set trigger_types)"
proof (intro conjI impI)
  show "trigger_types = [''cron'', ''message'', ''success'', ''failure'']"
    by (rule trigger_types_def)
next
  assume a: "entered \<in> set trigger_types"
  then have "entered \<noteq> []" by (auto simp: trigger_types_def)
  with a show "getInput lib type_question (entered # rest) = Some (entered, rest, [])"
    by (simp add: Let_def type_question_line type_question_before type_question_accepts)
next
  assume "entered = []"
  then show "getInput lib type_question (entered # rest) = Some (''cron'', rest, [])"
    by (simp add: Let_def type_question_line type_question_before type_question_accepts
        cron_is_type)
next
  assume "entered \<noteq> [] \<and> entered \<notin> set trigger_types"
  then show "getInput lib type_question (entered # rest)
          = (case getInput lib type_question rest of
               None \<Rightarrow> None
             | Some (v, rest', out) \<Rightarrow> Some (v, rest', refusal type_question @ out))"
    by (simp add: Let_def type_question_line type_question_before type_question_accepts
        split: option.splits)
next
  assume "getInput lib type_question lines = Some (v, rest', out)"
  then show "v \<in> set trigger_types" by (rule type_delivered)
qed

theorem type_field_values_witness:
  "trigger_types = [''cron'', ''message'', ''success'', ''failure'']
   \<and> ''message'' \<in> set trigger_types
   \<and> getInput example_lib type_question [''message'', ''n''] = Some (''message'', [''n''], [])
   \<and> getInput example_lib type_question [[], ''n''] = Some (''cron'', [''n''], [])
   \<and> (''scheduled'' \<noteq> [] \<and> ''scheduled'' \<notin> set trigger_types)
   \<and> getInput example_lib type_question [''scheduled'', ''message'', ''n'']
       = Some (''message'', [''n''], refusal type_question)"
proof -
  have m: "''message'' \<in> set trigger_types" by (simp add: trigger_types_def)
  have s: "''scheduled'' \<noteq> [] \<and> ''scheduled'' \<notin> set trigger_types"
    by (simp add: trigger_types_def)
  note t = type_field_values [where lib = example_lib]
  note accepted = t [where entered = "''message''" and rest = "[''n'']",
      THEN conjunct2, THEN conjunct1, THEN mp, OF m]
  note blank = t [where entered = "[]" and rest = "[''n'']",
      THEN conjunct2, THEN conjunct2, THEN conjunct1, THEN mp, OF refl]
  note refused = t [where entered = "''scheduled''" and rest = "[''message'', ''n'']",
      THEN conjunct2, THEN conjunct2, THEN conjunct2, THEN conjunct1, THEN mp, OF s]
  have again: "getInput example_lib type_question [''scheduled'', ''message'', ''n'']
       = Some (''message'', [''n''], refusal type_question)"
    unfolding refused accepted by simp
  note delivered = t [where lines = "[''message'', ''n'']" and v = "''message''"
      and rest' = "[''n'']" and out = "[]",
      THEN conjunct2, THEN conjunct2, THEN conjunct2, THEN conjunct2, THEN mp, OF accepted]
  from t [THEN conjunct1] delivered accepted blank s [THEN conjunct1] s [THEN conjunct2] again
  show ?thesis by (intro conjI)
qed

subsection \<open>Unique names\<close>

text \<open>
  A line without a space that equals a name already stored is refused, for each
  behaviour of the package: the message is shown and the name is asked again.
\<close>

lemma duplicate_refused:
  assumes "line_read (name_question arr thing d) entered \<in> set (Object_keys arr)"
      and "CHR '' '' \<notin> set (line_read (name_question arr thing d) entered)"
  shows "getInput lib (name_question arr thing d) (entered # rest)
           = (case getInput lib (name_question arr thing d) rest of
                None \<Rightarrow> None
              | Some (v, rest', out) \<Rightarrow>
                  Some (v, rest', refusal (name_question arr thing d) @ out))"
proof -
  define line where "line = line_read (name_question arr thing d) entered"
  from assms(1) have stored: "line \<in> set (Object_keys arr)" by (simp only: line_def)
  from assms(2) have "CHR '' '' \<notin> set line" unfolding line_def .
  then have hook: "run_before (name_question arr thing d) line = (line, [])"
    by (simp add: name_question_before before_name_def)
  have refused: "\<not> acceptable (name_question arr thing d) line"
    using stored by (simp add: acceptable_def name_question_def duplicateCheck_def)
  show ?thesis
    unfolding getInput.simps line_def [symmetric] Let_def hook
    using refused by (simp split: option.splits)
qed

lemma hyphenated_duplicate_refused:
  "map_option (\<lambda>(st, hist, rest, out). (credentials st, out))
     (addCredential example_lib ''wise-owl-credential'' []
        [''c-one'', ''./a.json'', ''y'', ''c-one'', ''c-two'', ''./b.json'', ''n'']
        empty_state)
   = Some ([(''c-one'', ''./a.json''), (''c-two'', ''./b.json'')],
           [Out ''Credential names must be unique; please try something else.'',
            Out ''OK. Credentials written.''])"
  by (simp add: generator_eval)

text \<open>
  C7: the check of the name sees the line as it was entered, and the name that is
  stored is the one the \<open>before\<close> hook returns. The name \<open>c one\<close>, proposed twice, is
  stored as \<open>c-one\<close> the first time and accepted again the second time: nothing is
  refused, the name is not asked again, the notice of the hook is shown twice, and the
  second credential takes the place of the first.
\<close>

theorem spaced_duplicate_overwrites:
  "map_option (\<lambda>(st, hist, rest, out). (credentials st, rest, out))
     (addCredential example_lib ''wise-owl-credential'' []
        [''c one'', ''./a.json'', ''y'', ''c one'', ''./b.json'', ''n''] empty_state)
   = Some ([(''c-one'', ''./b.json'')], [],
           [replacing_notice ''c-one'', replacing_notice ''c-one'',
            Out ''OK. Credentials written.''])"
  by (simp add: generator_eval is_space_def)

subsection \<open>One entry per step\<close>

lemma update_new_key: "k \<notin> set (map fst obj) \<Longrightarrow> AList.update k v obj = obj @ [(k, v)]"
  by (induction obj) auto

text \<open>A name that is new, and is not \<open>__proto__\<close>, adds one entry at the end.\<close>

lemma obj_set_new_key:
  "k \<noteq> ''__proto__'' \<Longrightarrow> k \<notin> set (map fst obj) \<Longrightarrow> obj_set obj k v = obj @ [(k, v)]"
  by (simp add: obj_set_def update_new_key)

lemma obj_set_proto: "obj_set obj ''__proto__'' v = obj"
  by (simp add: obj_set_def)

text \<open>
  A job step whose name, entered with a space, is stored already in its hyphenated
  form (the defect of C7): the step adds no entry, and the entry stored before is
  changed.
\<close>

lemma spaced_job_name_overwrites:
  "map_option (\<lambda>(st, hist, rest, out). jobs st)
     (addJob example_lib ''brave-lion-job'' []
        [''j one'', ''./a.js'', [], ''t1'', ''c1'', ''y'',
         ''j one'', ''./b.js'', [], ''t2'', ''c2'', ''n''] empty_state)
   = Some [(''j-one'', [(''expression'', ''./b.js''), (''adaptor'', ''@openfn/language-http''),
                        (''trigger'', ''t2''), (''credential'', ''c2'')])]"
  by (simp add: generator_eval is_space_def)

text \<open>
  C10: a job step that completes with the accepted name \<open>__proto__\<close> adds no entry to
  the jobs mapping: assigning to that key of a plain object creates no property of its
  own.
\<close>

theorem proto_name_adds_nothing:
  "map_option (\<lambda>(st, hist, rest, out). (jobs st, out))
     (addJob example_lib ''brave-lion-job'' []
        [''__proto__'', ''./job.js'', [], ''t1'', ''c1'', ''n''] empty_state)
   = Some ([], [Out ''OK. Jobs written.''])"
  by (simp add: generator_eval)

subsection \<open>The trigger record\<close>

lemma getInput_plain:
  assumes "\<not> required p" "conform p = None" "before p = None"
  shows "getInput lib p lines
       = (case lines of [] \<Rightarrow> None | entered # rest \<Rightarrow> Some (line_read p entered, rest, []))"
  using assms by (cases lines) (simp_all add: Let_def acceptable_def run_before_def)

lemma removeFalsy_record:
  "removeFalsy [(''type'', ty), (''cron'', c), (''criteria'', cr), (''success'', s), (''failure'', f)]
     = filter (\<lambda>kv. snd kv \<noteq> [])
         [(''type'', ty), (''cron'', c), (''criteria'', cr), (''success'', s), (''failure'', f)]"
  by (simp add: removeFalsy_def Object_keys_def is_array_index_def is_digit_def obj_set_def)

text \<open>One question of the trigger form after the type: asked, or not asked.\<close>

lemma asked_question:
  assumes "ask p = Some (type_is t)" "\<not> required p" "conform p = None" "before p = None"
  shows "prompt_get lib ((nm, p) # props) hist lines
     = (if map_of hist ''type'' = Some t
        then case lines of
               [] \<Rightarrow> None
             | entered # later \<Rightarrow>
                 (case prompt_get lib props ((nm, line_read p entered) # hist) later of
                    None \<Rightarrow> None
                  | Some (answers, hist', rest', out') \<Rightarrow>
                      Some ((nm, line_read p entered) # answers, hist', rest', out'))
        else case prompt_get lib props hist lines of
               None \<Rightarrow> None
             | Some (answers, hist', rest', out') \<Rightarrow>
                 Some ((nm, unasked_value lib p) # answers, hist', rest', out'))"
  using assms by (simp add: getInput_plain type_is_def split: list.splits option.splits)

lemma another_question:
  "prompt_get lib (another thing) hist lines
     = (case lines of
          [] \<Rightarrow> None
        | entered # later \<Rightarrow>
            Some ([(''another'', entered)], (''another'', entered) # hist, later, []))"
  by (simp add: another_def plain_def getInput_plain line_read_def default_line_def
      split: list.splits)

lemma trigger_tail:
  assumes pg: "prompt_get lib
        ([(''cron'', cron_question), (''criteria'', criteria_question),
          (''success'', success_question), (''failure'', failure_question)] @ another ''trigger'')
        ((''type'', ty) # hist) lines = Some (answers, hist', rest, out)"
  shows "\<exists>c cr s f a.
      answers = [(''cron'', c), (''criteria'', cr), (''success'', s), (''failure'', f),
                 (''another'', a)]
      \<and> (if ty = ''cron'' then c \<noteq> [] else c = unasked_value lib cron_question)
      \<and> (if ty = ''message'' then cr \<noteq> [] else cr = unasked_value lib criteria_question)
      \<and> (ty \<noteq> ''success'' \<longrightarrow> s = [])
      \<and> (ty \<noteq> ''failure'' \<longrightarrow> f = [])"
proof -
  have q: "ask cron_question = Some (type_is ''cron'')" "\<not> required cron_question"
      "conform cron_question = None" "before cron_question = None"
      "ask criteria_question = Some (type_is ''message'')" "\<not> required criteria_question"
      "conform criteria_question = None" "before criteria_question = None"
      "ask success_question = Some (type_is ''success'')" "\<not> required success_question"
      "conform success_question = None" "before success_question = None"
      "ask failure_question = Some (type_is ''failure'')" "\<not> required failure_question"
      "conform failure_question = None" "before failure_question = None"
    by (simp_all add: cron_question_def criteria_question_def success_question_def
        failure_question_def plain_def)
  have d: "line_read cron_question entered \<noteq> []" "line_read criteria_question entered \<noteq> []"
      "unasked_value lib success_question = []" "unasked_value lib failure_question = []"
    for entered
    by (simp_all add: cron_question_def criteria_question_def success_question_def
        failure_question_def plain_def line_read_def default_line_def unasked_value_def
        quoted_def)
  note steps = asked_question [OF q(1) q(2) q(3) q(4)] asked_question [OF q(5) q(6) q(7) q(8)]
    asked_question [OF q(9) q(10) q(11) q(12)] asked_question [OF q(13) q(14) q(15) q(16)]
    another_question
  from pg show ?thesis
    by (simp add: steps d del: prompt_get.simps split: if_splits list.splits) (auto simp: d)
qed

lemma always_asked:
  "ask p = None \<Longrightarrow>
   prompt_get lib ((nm, p) # props) hist lines
     = (case getInput lib p lines of
          None \<Rightarrow> None
        | Some (v, rest, out) \<Rightarrow>
            (case prompt_get lib props ((nm, v) # hist) rest of
               None \<Rightarrow> None
             | Some (answers, hist', rest', out') \<Rightarrow>
                 Some ((nm, v) # answers, hist', rest', out @ out')))"
  by simp

text \<open>The answers of a completed trigger form.\<close>

lemma trigger_answers:
  assumes pg: "prompt_get lib (triggerForm arr d) hist lines = Some (answers, hist', rest, out)"
  shows "\<exists>nm ty c cr s f a.
      answers = [(''name'', nm), (''type'', ty), (''cron'', c), (''criteria'', cr),
                 (''success'', s), (''failure'', f), (''another'', a)]
      \<and> ty \<in> set trigger_types
      \<and> (if ty = ''cron'' then c \<noteq> [] else c = unasked_value lib cron_question)
      \<and> (if ty = ''message'' then cr \<noteq> [] else cr = unasked_value lib criteria_question)
      \<and> (ty \<noteq> ''success'' \<longrightarrow> s = [])
      \<and> (ty \<noteq> ''failure'' \<longrightarrow> f = [])"
proof -
  let ?tail = "[(''cron'', cron_question), (''criteria'', criteria_question),
          (''success'', success_question), (''failure'', failure_question)] @ another ''trigger''"
  have n: "ask (name_question arr ''Trigger'' d) = None" by (simp add: name_question_def)
  have t: "ask type_question = None" by (simp add: type_question_def plain_def)
  from pg have "prompt_get lib ((''name'', name_question arr ''Trigger'' d)
      # (''type'', type_question) # ?tail) hist lines = Some (answers, hist', rest, out)"
    by (simp add: triggerForm_def name_def del: prompt_get.simps)
  then obtain nm r1 ty r2 o2 tl h3 r3 o3 where
    ty: "getInput lib type_question r1 = Some (ty, r2, o2)"
    and tl: "prompt_get lib ?tail ((''type'', ty) # (''name'', nm) # hist) r2
        = Some (tl, h3, r3, o3)"
    and a: "answers = (''name'', nm) # (''type'', ty) # tl"
    unfolding always_asked [OF n] always_asked [OF t]
    by (auto simp del: prompt_get.simps split: option.splits)
  from trigger_tail [OF tl] obtain c cr s f a where
    tl': "tl = [(''cron'', c), (''criteria'', cr), (''success'', s), (''failure'', f),
                 (''another'', a)]"
    and c: "if ty = ''cron'' then c \<noteq> [] else c = unasked_value lib cron_question"
    and cr: "if ty = ''message'' then cr \<noteq> [] else cr = unasked_value lib criteria_question"
    and s: "ty \<noteq> ''success'' \<longrightarrow> s = []"
    and f: "ty \<noteq> ''failure'' \<longrightarrow> f = []"
    by (elim exE conjE) (rule that)
  from a tl' have "answers = [(''name'', nm), (''type'', ty), (''cron'', c), (''criteria'', cr),
                 (''success'', s), (''failure'', f), (''another'', a)]" by simp
  with type_delivered [OF ty] c cr s f show ?thesis by (intro exI conjI)
qed

text \<open>
  With a package that delivers a property that is not asked with its default, every
  trigger record has a \<open>cron\<close> and a \<open>criteria\<close> field, whatever its type: the defaults of
  the two questions are not blank, and \<open>removeFalsy\<close> keeps them.
\<close>

lemma defaults_always_stored:
  assumes pg: "prompt_get lib (triggerForm arr d) hist lines = Some (answers, hist', rest, out)"
      and u: "unasked_default lib"
  shows "map_of (removeFalsy (rest_of answers)) ''cron'' \<noteq> None
       \<and> map_of (removeFalsy (rest_of answers)) ''criteria'' \<noteq> None"
proof -
  from trigger_answers [OF pg] obtain nm t c cr s f a where
    a: "answers = [(''name'', nm), (''type'', t), (''cron'', c), (''criteria'', cr),
                 (''success'', s), (''failure'', f), (''another'', a)]"
    and c: "if t = ''cron'' then c \<noteq> [] else c = unasked_value lib cron_question"
    and cr: "if t = ''message'' then cr \<noteq> [] else cr = unasked_value lib criteria_question"
    by (elim exE conjE) (rule that)
  from u have d: "unasked_value lib cron_question \<noteq> []"
    "unasked_value lib criteria_question \<noteq> []"
    by (simp_all add: unasked_value_def default_line_def cron_question_def
        criteria_question_def plain_def)
  from c d(1) have c0: "c \<noteq> []" by (cases "t = ''cron''") simp_all
  from cr d(2) have cr0: "cr \<noteq> []" by (cases "t = ''message''") simp_all
  from c0 cr0 show ?thesis by (simp add: a rest_of_def removeFalsy_record)
qed

text \<open>
  C6: a trigger of type \<open>message\<close> is stored with a \<open>cron\<close> field. The question \<open>cron\<close> is
  not asked, the package delivers its default, and \<open>removeFalsy\<close> keeps it, since it is
  not blank.
\<close>

theorem message_trigger_stores_cron:
  "map_option (\<lambda>(st, hist, rest, out). triggers st)
     (addTrigger example_lib ''calm-otter-trigger'' [] [''t1'', ''message'', ''{}'', ''n'']
        empty_state)
   = Some [(''t1'', [(''type'', ''message''), (''cron'', ''* * * * *''), (''criteria'', ''{}'')])]"
  by (simp add: generator_eval)

text \<open>
  C9: a trigger of type \<open>success\<close> whose question is answered with an empty line is
  stored without a \<open>success\<close> field and with the defaults of \<open>cron\<close> and \<open>criteria\<close>, the
  two questions that were not asked: two type-specific fields, not none.
\<close>

theorem blank_success_stores_defaults:
  "map_option (\<lambda>(st, hist, rest, out). triggers st)
     (addTrigger example_lib ''calm-otter-trigger'' [] [''t1'', ''success'', [], ''n'']
        empty_state)
   = Some [(''t1'', [(''type'', ''success''), (''cron'', ''* * * * *''),
                     (''criteria'', ''{'' @ quoted ''a'' @ '': 1}'')])]"
  by (simp add: generator_eval)

end
